theory Spec2Isabelle
  imports Main
begin

section \<open>Data model (core/api/models.py)\<close>

text \<open>
  Database tables are lists of rows, in table order. Points in time are integers on one
  common scale (the source mixes datetimes and POSIX timestamps of the same instant).
  Primary and foreign keys are natural numbers, except the session id, which the source
  renders as the string of a UUID.
\<close>

record user =
  user_id :: nat
  email :: string
  password :: string
  is_active :: bool
  deleted_at :: "int option"

record user_session =
  session_id :: string
  session_user :: nat
  session_is_active :: bool
  created_at :: int
  expires_at :: int
  last_activity_at :: int

record revoked_token =
  jti :: string
  revoked_at :: int
  token_expires_at :: int

record user_role =
  ur_user :: nat
  ur_role :: nat
  assigned_at :: int

text \<open>
  An \<open>AccessRoleRule\<close> row. The foreign key \<open>element\<close> is followed to the element's
  \<open>name\<close> (the only column the permission check reads, and a unique one).
\<close>

record access_role_rule =
  rule_role :: nat
  element_name :: string
  read_all_permission :: bool
  create_permission :: bool
  update_all_permission :: bool
  delete_all_permission :: bool
  read_own_permission :: bool
  update_own_permission :: bool
  delete_own_permission :: bool
  can_export :: bool
  can_import :: bool

record database =
  users :: "user list"
  sessions :: "user_session list"
  revoked_tokens :: "revoked_token list"
  user_roles :: "user_role list"
  access_role_rules :: "access_role_rule list"

subsection \<open>Queries\<close>

text \<open>
  \<open>Model.objects.get(...)\<close>: the single row satisfying the condition, and otherwise one
  of the two exceptions \<open>DoesNotExist\<close> and \<open>MultipleObjectsReturned\<close>.
\<close>

datatype 'a query_result = DoesNotExist | MultipleObjectsReturned | Row 'a

definition objects_get :: "('a \<Rightarrow> bool) \<Rightarrow> 'a list \<Rightarrow> 'a query_result" where
  "objects_get cond rows =
     (case filter cond rows of
        [] \<Rightarrow> DoesNotExist
      | [r] \<Rightarrow> Row r
      | _ \<Rightarrow> MultipleObjectsReturned)"

text \<open>
  Exceptions that leave a function of the source. \<open>AuthenticationFailed\<close> carries its
  message. \<open>NotAuthenticated\<close> and \<open>PermissionDenied\<close> are what DRF raises when a permission
  class answers \<open>False\<close>. \<open>ValidationError\<close> carries one of the two messages of the login
  serializer (Cyrillic in the source: "wrong email or password" and "account
  deactivated"). \<open>IntegrityError\<close> is an insert of an existing primary key.
  \<open>Uncaught_MultipleObjectsReturned\<close> is the \<open>get\<close> exception no handler of the source
  catches, and \<open>Uncaught_ValidationError\<close> is what the ORM raises, equally uncaught, when
  a \<open>UUIDField\<close> is compared with a string that is not a UUID.
  \<open>Uncaught_TimestampError\<close> is the exception of \<open>datetime.fromtimestamp\<close> for a timestamp
  no datetime represents (\<open>ValueError\<close>, \<open>OverflowError\<close> or \<open>OSError\<close>, by the value and the
  platform), which the \<open>logout\<close> view does not catch either.
\<close>

datatype login_message = Wrong_email_or_password | Account_deactivated

datatype error =
    AuthenticationFailed string
  | NotAuthenticated
  | PermissionDenied
  | ValidationError login_message
  | IntegrityError
  | Uncaught_MultipleObjectsReturned
  | Uncaught_ValidationError
  | Uncaught_TimestampError

text \<open>
  \<open>user.user_roles.all()\<close>: the role assignments of one user, in the \<open>Meta.ordering\<close> of
  \<open>UserRole\<close>, which is \<open>-assigned_at\<close> (latest assignment first; rows assigned at the
  same instant keep their table order).
\<close>

definition user_roles_all :: "database \<Rightarrow> user \<Rightarrow> user_role list" where
  "user_roles_all db u =
     sort_key (\<lambda>r. - assigned_at r) (filter (\<lambda>r. ur_user r = user_id u) (user_roles db))"

subsection \<open>AccessRoleRule methods\<close>

text \<open>
  Both methods look the action up in a dictionary and answer \<open>False\<close> for an action that
  is not a key (\<open>action_map.get(action, False)\<close>).
\<close>

definition has_global_permission :: "access_role_rule \<Rightarrow> string \<Rightarrow> bool" where
  "has_global_permission rule action =
     (case map_of
        [(''read'', read_all_permission rule),
         (''create'', create_permission rule),
         (''update'', update_all_permission rule),
         (''delete'', delete_all_permission rule),
         (''export'', can_export rule),
         (''import'', can_import rule)] action of
        Some b \<Rightarrow> b
      | None \<Rightarrow> False)"

definition has_own_permission :: "access_role_rule \<Rightarrow> string \<Rightarrow> bool" where
  "has_own_permission rule action =
     (case map_of
        [(''read'', read_own_permission rule),
         (''update'', update_own_permission rule),
         (''delete'', delete_own_permission rule)] action of
        Some b \<Rightarrow> b
      | None \<Rightarrow> False)"

section \<open>Permission classes (core/api/permissions.py)\<close>

text \<open>
  The part of a DRF request the permission classes read and write: the HTTP method, the
  resolved user (\<open>None\<close> is the anonymous user, whose \<open>is_authenticated\<close> is false), the
  token stored in \<open>request.auth\<close>, and the attribute \<open>must_filter_by_owner\<close>, which is
  absent (read as \<open>False\<close> by the views) until \<open>HasPermission\<close> sets it.
\<close>

record request =
  http_method :: string
  request_user :: "user option"
  auth :: "string option"
  must_filter_by_owner :: bool

text \<open>
  What \<open>HasPermission\<close> reads of the view: the attribute \<open>resource_name\<close> and, when the view
  has a queryset, the model name of that queryset.
\<close>

record view =
  resource_name :: "string option"
  queryset_model_name :: "string option"

definition get_action_from_method :: "string \<Rightarrow> string" where
  "get_action_from_method m =
     (case map_of
        [(''GET'', ''read''),
         (''POST'', ''create''),
         (''PUT'', ''update''),
         (''PATCH'', ''update''),
         (''DELETE'', ''delete'')] m of
        Some a \<Rightarrow> a
      | None \<Rightarrow> ''read'')"

text \<open>
  The loop of \<open>has_permission\<close> over the user's role assignments. Each round looks up the
  rule of (role, resource); a global grant returns \<open>True\<close>, an own grant sets
  \<open>must_filter_by_owner\<close> and returns \<open>True\<close>, and a missing rule or a rule without either
  grant moves on to the next assignment.
\<close>

fun has_permission_loop ::
  "access_role_rule list \<Rightarrow> string \<Rightarrow> string \<Rightarrow> request \<Rightarrow> user_role list
     \<Rightarrow> error + (bool \<times> request)" where
  "has_permission_loop rules resource action req [] = Inr (False, req)"
| "has_permission_loop rules resource action req (ur # urs) =
     (case objects_get (\<lambda>r. rule_role r = ur_role ur \<and> element_name r = resource) rules of
        DoesNotExist \<Rightarrow> has_permission_loop rules resource action req urs
      | MultipleObjectsReturned \<Rightarrow> Inl Uncaught_MultipleObjectsReturned
      | Row rule \<Rightarrow>
          if has_global_permission rule action then Inr (True, req)
          else if has_own_permission rule action
            then Inr (True, req\<lparr>must_filter_by_owner := True\<rparr>)
          else has_permission_loop rules resource action req urs)"

text \<open>
  The resource \<open>has_permission\<close> checks: the view's \<open>resource_name\<close>, and the model name of
  its queryset when \<open>not resource_name\<close> holds (a missing attribute, or the empty string).
\<close>

definition view_resource :: "view \<Rightarrow> string option" where
  "view_resource v =
     (if resource_name v = None \<or> resource_name v = Some []
      then queryset_model_name v else resource_name v)"

definition has_permission :: "database \<Rightarrow> request \<Rightarrow> view \<Rightarrow> error + (bool \<times> request)" where
  "has_permission db req v =
     (case request_user req of
        None \<Rightarrow> Inr (False, req)
      | Some u \<Rightarrow>
          (case view_resource v of
             None \<Rightarrow> Inr (False, req)
           | Some resource \<Rightarrow>
               has_permission_loop (access_role_rules db) resource
                 (get_action_from_method (http_method req)) req (user_roles_all db u)))"

text \<open>
  The object an object-level check is about: the ids behind its attributes \<open>owner\<close>,
  \<open>user\<close> and \<open>created_by\<close>, each \<open>None\<close> when the object has no such attribute.
\<close>

record business_object =
  obj_owner :: "nat option"
  obj_user :: "nat option"
  obj_created_by :: "nat option"

definition is_owner :: "user \<Rightarrow> business_object \<Rightarrow> bool" where
  "is_owner u obj =
     (if obj_owner obj = Some (user_id u) then True
      else if obj_user obj = Some (user_id u) then True
      else if obj_created_by obj = Some (user_id u) then True
      else False)"

text \<open>
  The loop of \<open>has_object_permission\<close>: as above, but an own grant counts only for the
  owner of the object, and otherwise the next role is tried.
\<close>

fun has_object_permission_loop ::
  "access_role_rule list \<Rightarrow> string \<Rightarrow> string \<Rightarrow> user \<Rightarrow> business_object \<Rightarrow> user_role list
     \<Rightarrow> error + bool" where
  "has_object_permission_loop rules resource action u obj [] = Inr False"
| "has_object_permission_loop rules resource action u obj (ur # urs) =
     (case objects_get (\<lambda>r. rule_role r = ur_role ur \<and> element_name r = resource) rules of
        DoesNotExist \<Rightarrow> has_object_permission_loop rules resource action u obj urs
      | MultipleObjectsReturned \<Rightarrow> Inl Uncaught_MultipleObjectsReturned
      | Row rule \<Rightarrow>
          if has_global_permission rule action then Inr True
          else if has_own_permission rule action \<and> is_owner u obj then Inr True
          else has_object_permission_loop rules resource action u obj urs)"

text \<open>
  The three decisions of the specification, read off the result of \<open>has_permission\<close>:
  refused, granted without the owner filter, granted with it.
\<close>

datatype decision = Denied | GrantedGlobal | GrantedOwnOnly

definition decision_of :: "bool \<times> request \<Rightarrow> decision" where
  "decision_of r =
     (if \<not> fst r then Denied
      else if must_filter_by_owner (snd r) then GrantedOwnOnly
      else GrantedGlobal)"

section \<open>Tokens (PyJWT as the source uses it)\<close>

text \<open>
  The claims the source reads or writes. A claim that is absent from the token is \<open>None\<close>
  (what \<open>payload.get\<close> returns for it).
\<close>

record payload =
  claim_session_id :: "string option"
  claim_user_id :: "nat option"
  claim_email :: "string option"
  claim_exp :: "int option"
  claim_iat :: "int option"
  claim_jti :: "string option"

text \<open>
  \<open>jwt.decode(token, SECRET_KEY, algorithms=['HS256'], ...)\<close>. Checking the format and
  the HS256 signature under the deployment's secret is a parameter \<open>verify\<close>, which yields
  the payload of a validly signed token and \<open>None\<close> for anything else; \<open>jwt.encode\<close> is a
  parameter \<open>sign\<close>. On top of that the library compares \<open>exp\<close> with the clock unless
  \<open>verify_exp\<close> is switched off (PyJWT 2: expired from the instant \<open>exp\<close> on). Every exception of the library is an
  \<open>InvalidTokenError\<close>; \<open>ExpiredSignatureError\<close> is the subclass the source tells apart.
\<close>

datatype jwt_error = ExpiredSignatureError | InvalidTokenError

definition jwt_decode ::
  "(string \<Rightarrow> payload option) \<Rightarrow> bool \<Rightarrow> int \<Rightarrow> string \<Rightarrow> jwt_error + payload" where
  "jwt_decode verify verify_exp now token =
     (case verify token of
        None \<Rightarrow> Inl InvalidTokenError
      | Some p \<Rightarrow>
          (case claim_exp p of
             None \<Rightarrow> Inr p
           | Some e \<Rightarrow> if verify_exp \<and> e \<le> now then Inl ExpiredSignatureError else Inr p))"

section \<open>Sessions and the revocation ledger (core/api/models.py)\<close>

text \<open>Seven days, the default lifetime \<open>UserSession.save\<close> gives a session, in seconds.\<close>

definition seven_days :: int where
  "seven_days = 7 * 24 * 60 * 60"

text \<open>
  \<open>UserSession.is_expired\<close> and \<open>RevokedToken.is_valid\<close>, the two clock comparisons the
  models offer as methods.
\<close>

definition is_expired :: "user_session \<Rightarrow> int \<Rightarrow> bool" where
  "is_expired s now = (now > expires_at s)"

definition is_valid :: "revoked_token \<Rightarrow> int \<Rightarrow> bool" where
  "is_valid r now = (now < token_expires_at r)"

text \<open>
  \<open>UserSession.create_jwt_token\<close>: the dictionary of claims, then \<open>jwt.encode\<close>. The
  dictionary has the five keys below and no \<open>jti\<close>.
\<close>

definition create_jwt_payload :: "user_session \<Rightarrow> user \<Rightarrow> int \<Rightarrow> payload" where
  "create_jwt_payload s u now =
     \<lparr>claim_session_id = Some (session_id s),
      claim_user_id = Some (user_id u),
      claim_email = Some (email u),
      claim_exp = Some (expires_at s),
      claim_iat = Some now,
      claim_jti = None\<rparr>"

definition create_jwt_token ::
  "(payload \<Rightarrow> string) \<Rightarrow> user_session \<Rightarrow> user \<Rightarrow> int \<Rightarrow> string" where
  "create_jwt_token sign s u now = sign (create_jwt_payload s u now)"

text \<open>
  \<open>User.create_session\<close>: \<open>UserSession.objects.create(user=self)\<close> with the field defaults
  (a new UUID, here \<open>new_id\<close>; active; created now), the expiry \<open>save\<close> fills in, and the
  token of the new row.
\<close>

definition create_session ::
  "(payload \<Rightarrow> string) \<Rightarrow> database \<Rightarrow> string \<Rightarrow> int \<Rightarrow> user \<Rightarrow> error + (database \<times> string)" where
  "create_session sign db new_id now u =
     (if new_id \<in> set (map session_id (sessions db)) then Inl IntegrityError
      else
        let s = \<lparr>session_id = new_id, session_user = user_id u, session_is_active = True,
                 created_at = now, expires_at = now + seven_days, last_activity_at = now\<rparr>
        in Inr (db\<lparr>sessions := sessions db @ [s]\<rparr>, create_jwt_token sign s u now))"

text \<open>
  \<open>RevokedToken.objects.get_or_create(jti=jti, defaults={'expires_at': expires_at})\<close>:
  an existing row is left as it is; otherwise a row is inserted, revoked now.
\<close>

definition revoked_token_get_or_create ::
  "revoked_token list \<Rightarrow> string \<Rightarrow> int \<Rightarrow> int \<Rightarrow> error + revoked_token list" where
  "revoked_token_get_or_create ledger j e now =
     (case objects_get (\<lambda>r. jti r = j) ledger of
        Row r \<Rightarrow> Inr ledger
      | DoesNotExist \<Rightarrow> Inr (ledger @ [\<lparr>jti = j, revoked_at = now, token_expires_at = e\<rparr>])
      | MultipleObjectsReturned \<Rightarrow> Inl Uncaught_MultipleObjectsReturned)"

section \<open>Authentication (core/api/authentication.py, core/api/middleware.py)\<close>

text \<open>
  \<open>CustomJWTAuthentication._is_token_revoked\<close>. The handler \<open>except jwt.InvalidTokenError:
  pass\<close> takes every exception of \<open>jwt.decode\<close>. \<open>if jti and ...\<close> is false for a missing
  claim and for the empty string.
\<close>

definition is_token_revoked ::
  "(string \<Rightarrow> payload option) \<Rightarrow> database \<Rightarrow> int \<Rightarrow> string \<Rightarrow> error + bool" where
  "is_token_revoked verify db now token =
     (case jwt_decode verify False now token of
        Inl ExpiredSignatureError \<Rightarrow> Inr False
      | Inl InvalidTokenError \<Rightarrow> Inr False
      | Inr p \<Rightarrow>
          (case claim_jti p of
             None \<Rightarrow> Inr False
           | Some j \<Rightarrow>
               if j \<noteq> [] \<and> (\<exists>r \<in> set (revoked_tokens db). jti r = j \<and> token_expires_at r > now)
               then Inr True else Inr False))"

text \<open>\<open>CustomAuthMiddleware._is_token_revoked\<close>, the same check in the middleware.\<close>

definition middleware_is_token_revoked ::
  "(string \<Rightarrow> payload option) \<Rightarrow> database \<Rightarrow> int \<Rightarrow> string \<Rightarrow> error + bool" where
  "middleware_is_token_revoked verify db now token =
     (case jwt_decode verify False now token of
        Inl ExpiredSignatureError \<Rightarrow> Inr False
      | Inl InvalidTokenError \<Rightarrow> Inr False
      | Inr p \<Rightarrow>
          (case claim_jti p of
             None \<Rightarrow> Inr False
           | Some j \<Rightarrow>
               if j \<noteq> [] \<and> (\<exists>r \<in> set (revoked_tokens db). jti r = j \<and> token_expires_at r > now)
               then Inr True else Inr False))"

text \<open>
  The session query of \<open>authenticate\<close>:
  \<open>get(id=session_id, is_active=True, expires_at__gt=now, user__is_active=True)\<close>.
  The last condition follows the foreign key to the user's row.
\<close>

definition session_owner :: "database \<Rightarrow> user_session \<Rightarrow> user option" where
  "session_owner db s = find (\<lambda>u. user_id u = session_user s) (users db)"

definition session_usable :: "database \<Rightarrow> string \<Rightarrow> int \<Rightarrow> user_session \<Rightarrow> bool" where
  "session_usable db sid now s =
     (session_id s = sid \<and> session_is_active s \<and> expires_at s > now \<and>
      (case session_owner db s of None \<Rightarrow> False | Some u \<Rightarrow> is_active u))"

definition get_session :: "database \<Rightarrow> string \<Rightarrow> int \<Rightarrow> user_session query_result" where
  "get_session db sid now = objects_get (session_usable db sid now) (sessions db)"

text \<open>
  \<open>session.save()\<close> on the row just read: the \<open>auto_now\<close> field \<open>last_activity_at\<close> becomes
  the current time.
\<close>

definition session_save :: "database \<Rightarrow> user_session \<Rightarrow> int \<Rightarrow> database" where
  "session_save db s now =
     db\<lparr>sessions :=
          map (\<lambda>s'. if session_id s' = session_id s then s\<lparr>last_activity_at := now\<rparr> else s')
            (sessions db)\<rparr>"

text \<open>
  \<open>CustomJWTAuthentication.authenticate\<close>, on the \<open>Authorization\<close> header (\<open>None\<close> when the
  request has none). The result is the exception raised, or the database after the call
  with \<open>None\<close> (no credentials) or the pair (user, token). Whether \<open>uuid.UUID\<close> accepts
  a string is a parameter \<open>is_uuid\<close>: the session query compares the primary key, a
  \<open>UUIDField\<close>, with the \<open>session_id\<close> claim.
\<close>

definition authenticate ::
  "(string \<Rightarrow> payload option) \<Rightarrow> (string \<Rightarrow> bool) \<Rightarrow> database \<Rightarrow> int \<Rightarrow> string option
     \<Rightarrow> error + (database \<times> (user \<times> string) option)" where
  "authenticate verify is_uuid db now auth_header =
     (case auth_header of
        None \<Rightarrow> Inr (db, None)
      | Some h \<Rightarrow>
          if h = [] \<or> take 7 h \<noteq> ''Bearer '' then Inr (db, None)
          else
            let token = drop 7 h in
            (case is_token_revoked verify db now token of
               Inl e \<Rightarrow> Inl e
             | Inr True \<Rightarrow> Inl (AuthenticationFailed ''Token revoked'')
             | Inr False \<Rightarrow>
                 (case jwt_decode verify True now token of
                    Inl ExpiredSignatureError \<Rightarrow> Inl (AuthenticationFailed ''Token expired'')
                  | Inl InvalidTokenError \<Rightarrow> Inl (AuthenticationFailed ''Invalid token'')
                  | Inr p \<Rightarrow>
                      (case claim_session_id p of
                         None \<Rightarrow> Inl (AuthenticationFailed ''Invalid token: no session_id'')
                       | Some sid \<Rightarrow>
                           if sid = []
                           then Inl (AuthenticationFailed ''Invalid token: no session_id'')
                           else if \<not> is_uuid sid then Inl Uncaught_ValidationError
                           else
                             (case get_session db sid now of
                                DoesNotExist \<Rightarrow>
                                  Inl (AuthenticationFailed ''Session not found or inactive'')
                              | MultipleObjectsReturned \<Rightarrow>
                                  Inl Uncaught_MultipleObjectsReturned
                              | Row s \<Rightarrow>
                                  (case session_owner db s of
                                     None \<Rightarrow>
                                       Inl (AuthenticationFailed
                                              ''Session not found or inactive'')
                                   | Some u \<Rightarrow>
                                       Inr (session_save db s now, Some (u, token))))))))"

section \<open>Login and logout (core/api/serializers.py, core/api/views/auth.py)\<close>

text \<open>
  \<open>UserLoginSerializer.validate\<close>. The password check of the user model is a parameter
  \<open>check_password\<close>, applied to the supplied password and the stored hash.
\<close>

definition validate ::
  "(string \<Rightarrow> string \<Rightarrow> bool) \<Rightarrow> database \<Rightarrow> string \<Rightarrow> string \<Rightarrow> error + user" where
  "validate check_password db mail pw =
     (case objects_get (\<lambda>u. email u = mail) (users db) of
        DoesNotExist \<Rightarrow> Inl (ValidationError Wrong_email_or_password)
      | MultipleObjectsReturned \<Rightarrow> Inl Uncaught_MultipleObjectsReturned
      | Row u \<Rightarrow>
          if \<not> is_active u then Inl (ValidationError Account_deactivated)
          else if \<not> check_password pw (password u)
            then Inl (ValidationError Wrong_email_or_password)
          else Inr u)"

text \<open>
  The \<open>login\<close> view: the token with 200, or the serializer's errors with 401. An exception
  that is not a validation error is the framework's 500.
\<close>

record login_response =
  login_status :: nat
  login_token :: "string option"
  login_errors :: "login_message option"

definition login ::
  "(string \<Rightarrow> string \<Rightarrow> bool) \<Rightarrow> (payload \<Rightarrow> string) \<Rightarrow> database \<Rightarrow> string \<Rightarrow> int
     \<Rightarrow> string \<Rightarrow> string \<Rightarrow> database \<times> login_response" where
  "login check_password sign db new_id now mail pw =
     (case validate check_password db mail pw of
        Inl (ValidationError m) \<Rightarrow>
          (db, \<lparr>login_status = 401, login_token = None, login_errors = Some m\<rparr>)
      | Inl _ \<Rightarrow> (db, \<lparr>login_status = 500, login_token = None, login_errors = None\<rparr>)
      | Inr u \<Rightarrow>
          (case create_session sign db new_id now u of
             Inl _ \<Rightarrow> (db, \<lparr>login_status = 500, login_token = None, login_errors = None\<rparr>)
           | Inr (db', token) \<Rightarrow>
               (db', \<lparr>login_status = 200, login_token = Some token, login_errors = None\<rparr>)))"

text \<open>
  \<open>timezone.datetime.fromtimestamp(exp, tz=timezone.utc)\<close>: the datetime of a POSIX
  timestamp, the same instant on the scale used here. A datetime has a year from 1 to
  9999, that is a timestamp from -62135596800 to 253402300799; for any other timestamp
  the call raises.
\<close>

definition fromtimestamp :: "int \<Rightarrow> error + int" where
  "fromtimestamp ts =
     (if - 62135596800 \<le> ts \<and> ts \<le> 253402300799 then Inr ts
      else Inl Uncaught_TimestampError)"

text \<open>
  The first half of the \<open>logout\<close> view: the token of the request goes to the blacklist,
  when it decodes (expiry not verified) and both \<open>jti\<close> and \<open>exp\<close> are truthy (present,
  and not the empty string or zero). The handler of the \<open>try\<close> takes the exceptions of
  \<open>jwt.decode\<close> only: one raised by the conversion of \<open>exp\<close> or by \<open>get_or_create\<close>
  leaves the view.
\<close>

definition blacklist_token ::
  "(string \<Rightarrow> payload option) \<Rightarrow> revoked_token list \<Rightarrow> int \<Rightarrow> string option
     \<Rightarrow> error + revoked_token list" where
  "blacklist_token verify ledger now tok =
     (case tok of
        None \<Rightarrow> Inr ledger
      | Some token \<Rightarrow>
          if token = [] then Inr ledger
          else
            (case jwt_decode verify False now token of
               Inl ExpiredSignatureError \<Rightarrow> Inr ledger
             | Inl InvalidTokenError \<Rightarrow> Inr ledger
             | Inr p \<Rightarrow>
                 (case (claim_jti p, claim_exp p) of
                    (Some j, Some e) \<Rightarrow>
                      if j \<noteq> [] \<and> e \<noteq> 0
                      then (case fromtimestamp e of
                              Inl err \<Rightarrow> Inl err
                            | Inr expires \<Rightarrow>
                                revoked_token_get_or_create ledger j expires now)
                      else Inr ledger
                  | _ \<Rightarrow> Inr ledger)))"

text \<open>
  The \<open>logout\<close> view, behind \<open>IsAuthenticated\<close>: the blacklist step, then
  \<open>request.user.sessions.filter(is_active=True).update(is_active=False)\<close>.
\<close>

definition logout ::
  "(string \<Rightarrow> payload option) \<Rightarrow> database \<Rightarrow> int \<Rightarrow> request \<Rightarrow> error + database" where
  "logout verify db now req =
     (case request_user req of
        None \<Rightarrow> Inl NotAuthenticated
      | Some u \<Rightarrow>
          (case blacklist_token verify (revoked_tokens db) now (auth req) of
             Inl e \<Rightarrow> Inl e
           | Inr ledger \<Rightarrow>
               Inr (db\<lparr>revoked_tokens := ledger,
                       sessions :=
                         map (\<lambda>s. if session_user s = user_id u \<and> session_is_active s
                                   then s\<lparr>session_is_active := False\<rparr> else s)
                           (sessions db)\<rparr>)))"

section \<open>The products endpoint (core/api/views/mock_views.py)\<close>

text \<open>
  \<open>CustomIsAuthenticated.has_permission\<close> raises for a request without an authenticated
  user and returns \<open>True\<close> otherwise.
\<close>

definition custom_is_authenticated :: "request \<Rightarrow> error + (bool \<times> request)" where
  "custom_is_authenticated req =
     (case request_user req of
        None \<Rightarrow> Inl (AuthenticationFailed ''Authentication credentials were not provided.'')
      | Some u \<Rightarrow> Inr (True, req))"

datatype permission_class = CustomIsAuthenticated | HasPermission

text \<open>
  DRF's \<open>check_permissions\<close>: the permission classes of the view in their order; the first
  that raises or answers \<open>False\<close> ends the check (\<open>False\<close> becomes \<open>NotAuthenticated\<close> for a
  request no authenticator resolved, \<open>PermissionDenied\<close> otherwise). Next to the outcome
  the function returns the classes whose \<open>has_permission\<close> ran.
\<close>

definition permission_denied :: "request \<Rightarrow> error" where
  "permission_denied req =
     (if request_user req = None then NotAuthenticated else PermissionDenied)"

fun check_permissions ::
  "database \<Rightarrow> view \<Rightarrow> request \<Rightarrow> permission_class list
     \<Rightarrow> (error + request) \<times> permission_class list" where
  "check_permissions db v req [] = (Inr req, [])"
| "check_permissions db v req (c # cs) =
     (case (case c of
              CustomIsAuthenticated \<Rightarrow> custom_is_authenticated req
            | HasPermission \<Rightarrow> has_permission db req v) of
        Inl e \<Rightarrow> (Inl e, [c])
      | Inr (ok, req') \<Rightarrow>
          if ok
          then (case check_permissions db v req' cs of (r, called) \<Rightarrow> (r, c # called))
          else (Inl (permission_denied req'), [c]))"

text \<open>
  The status DRF's exception handler gives each exception. The authentication class
  supplies \<open>authenticate_header\<close>, so authentication failures stay 401.
\<close>

definition status_of_error :: "error \<Rightarrow> nat" where
  "status_of_error e =
     (case e of
        AuthenticationFailed m \<Rightarrow> 401
      | NotAuthenticated \<Rightarrow> 401
      | PermissionDenied \<Rightarrow> 403
      | ValidationError m \<Rightarrow> 400
      | IntegrityError \<Rightarrow> 500
      | Uncaught_MultipleObjectsReturned \<Rightarrow> 500
      | Uncaught_ValidationError \<Rightarrow> 500
      | Uncaught_TimestampError \<Rightarrow> 500)"

record product =
  product_id :: nat
  price :: nat
  owner_id :: nat

record response =
  status :: nat
  body :: "product list"

text \<open>
  \<open>MockProductView.get\<close>: three products (their names left out), the third owned by the
  requesting user; only that user's products when \<open>must_filter_by_owner\<close> is set.
\<close>

definition mock_product_get :: "request \<Rightarrow> user \<Rightarrow> response" where
  "mock_product_get req u =
     (let mock_products =
        [\<lparr>product_id = 1, price = 50000, owner_id = 999\<rparr>,
         \<lparr>product_id = 2, price = 30000, owner_id = 998\<rparr>,
         \<lparr>product_id = 3, price = 25000, owner_id = user_id u\<rparr>]
      in \<lparr>status = 200,
          body = (if must_filter_by_owner req
                  then filter (\<lambda>p. owner_id p = user_id u) mock_products
                  else mock_products)\<rparr>)"

definition mock_product_view :: view where
  "mock_product_view = \<lparr>resource_name = Some ''products'', queryset_model_name = None\<rparr>"

text \<open>
  One request to \<open>MockProductView\<close> as DRF dispatches it: authentication, the permission
  classes \<open>[CustomIsAuthenticated, HasPermission]\<close>, then the handler of the method
  (\<open>get\<close>, also for HEAD; \<open>post\<close>; DRF's own \<open>options\<close>; 405 for the rest). The result is the
  database after the request, the response, and the permission classes that ran.
\<close>

definition products_request ::
  "(string \<Rightarrow> payload option) \<Rightarrow> (string \<Rightarrow> bool) \<Rightarrow> database \<Rightarrow> int
     \<Rightarrow> string option \<Rightarrow> string \<Rightarrow> database \<times> response \<times> permission_class list" where
  "products_request verify is_uuid db now auth_header m =
     (case authenticate verify is_uuid db now auth_header of
        Inl e \<Rightarrow> (db, \<lparr>status = status_of_error e, body = []\<rparr>, [])
      | Inr (db', who) \<Rightarrow>
          (case check_permissions db' mock_product_view
                  \<lparr>http_method = m, request_user = map_option fst who,
                   auth = map_option snd who, must_filter_by_owner = False\<rparr>
                  [CustomIsAuthenticated, HasPermission] of
             (Inl e, called) \<Rightarrow> (db', \<lparr>status = status_of_error e, body = []\<rparr>, called)
           | (Inr req, called) \<Rightarrow>
               (case request_user req of
                  None \<Rightarrow> (db', \<lparr>status = 500, body = []\<rparr>, called)
                | Some u \<Rightarrow>
                    if m = ''GET'' \<or> m = ''HEAD'' then (db', mock_product_get req u, called)
                    else if m = ''POST'' then (db', \<lparr>status = 201, body = []\<rparr>, called)
                    else if m = ''OPTIONS'' then (db', \<lparr>status = 200, body = []\<rparr>, called)
                    else (db', \<lparr>status = 405, body = []\<rparr>, called))))"

section \<open>Sample data\<close>

text \<open>
  A small database for concrete runs: an active user and a deactivated one, and two rules
  on \<open>products\<close>: role 1 may read its own objects, role 2 holds every global permission.
\<close>

definition alice :: user where
  "alice = \<lparr>user_id = 7, email = ''alice@example.com'', password = ''pw-alice'',
             is_active = True, deleted_at = None\<rparr>"

definition bob :: user where
  "bob = \<lparr>user_id = 8, email = ''bob@example.com'', password = ''pw-bob'',
           is_active = False, deleted_at = Some 5\<rparr>"

definition own_rule :: access_role_rule where
  "own_rule = \<lparr>rule_role = 1, element_name = ''products'',
     read_all_permission = False, create_permission = False, update_all_permission = False,
     delete_all_permission = False, read_own_permission = True, update_own_permission = False,
     delete_own_permission = False, can_export = False, can_import = False\<rparr>"

definition global_rule :: access_role_rule where
  "global_rule = \<lparr>rule_role = 2, element_name = ''products'',
     read_all_permission = True, create_permission = True, update_all_permission = True,
     delete_all_permission = True, read_own_permission = False, update_own_permission = False,
     delete_own_permission = False, can_export = False, can_import = False\<rparr>"

definition example_db :: database where
  "example_db = \<lparr>users = [alice, bob], sessions = [], revoked_tokens = [],
     user_roles = [], access_role_rules = [own_rule, global_rule]\<rparr>"

definition request_of :: "string \<Rightarrow> request" where
  "request_of m = \<lparr>http_method = m, request_user = Some alice, auth = None,
                    must_filter_by_owner = False\<rparr>"

text \<open>
  Three session ids, with a stand-in for the UUID parser that accepts just these; a
  session created at a given time with the default lifetime, the claims of a token for
  the first user, and the request the \<open>logout\<close> view sees once that user is
  authenticated with a token.
\<close>

definition sid1 :: string where
  "sid1 = ''11111111-1111-4111-8111-111111111111''"

definition sid2 :: string where
  "sid2 = ''22222222-2222-4222-8222-222222222222''"

definition sid3 :: string where
  "sid3 = ''33333333-3333-4333-8333-333333333333''"

definition example_is_uuid :: "string \<Rightarrow> bool" where
  "example_is_uuid s = (s \<in> {sid1, sid2, sid3})"

definition example_session :: "string \<Rightarrow> nat \<Rightarrow> int \<Rightarrow> user_session" where
  "example_session sid uid t =
     \<lparr>session_id = sid, session_user = uid, session_is_active = True, created_at = t,
      expires_at = t + seven_days, last_activity_at = t\<rparr>"

definition example_payload :: "string \<Rightarrow> string option \<Rightarrow> int \<Rightarrow> payload" where
  "example_payload sid j e =
     \<lparr>claim_session_id = Some sid, claim_user_id = Some 7,
      claim_email = Some ''alice@example.com'', claim_exp = Some e, claim_iat = Some 0,
      claim_jti = j\<rparr>"

definition logout_request :: "string \<Rightarrow> request" where
  "logout_request token = \<lparr>http_method = ''POST'', request_user = Some alice,
                            auth = Some token, must_filter_by_owner = False\<rparr>"

text \<open>
  The sample database with one session of the first user (created at a given time,
  active or not, last used at a given time) and a given revocation ledger.
\<close>

definition session_db :: "int \<Rightarrow> bool \<Rightarrow> int \<Rightarrow> revoked_token list \<Rightarrow> database" where
  "session_db t active used ledger =
     example_db\<lparr>sessions := [(example_session sid1 7 t)
                                 \<lparr>session_is_active := active, last_activity_at := used\<rparr>],
                revoked_tokens := ledger\<rparr>"

section \<open>Queries: basic facts\<close>

lemmas example_defs = alice_def bob_def own_rule_def global_rule_def example_db_def
  request_of_def mock_product_view_def view_resource_def

lemmas auth_defs = example_session_def example_payload_def logout_request_def seven_days_def
  sid1_def sid2_def sid3_def example_is_uuid_def session_db_def

lemma objects_get_none:
  "\<forall>r \<in> set rows. \<not> cond r \<Longrightarrow> objects_get cond rows = DoesNotExist"
  by (simp add: objects_get_def filter_empty_conv[THEN iffD2])

lemma objects_get_DoesNotExistD:
  "objects_get cond rows = DoesNotExist \<Longrightarrow> r \<in> set rows \<Longrightarrow> \<not> cond r"
  by (auto simp: objects_get_def filter_empty_conv split: list.splits)

lemma objects_get_RowD:
  assumes "objects_get cond rows = Row r"
  shows "r \<in> set rows \<and> cond r \<and> (\<forall>r' \<in> set rows. cond r' \<longrightarrow> r' = r)"
proof -
  from assms have "filter cond rows = [r]"
    by (auto simp: objects_get_def split: list.splits)
  then have "set (filter cond rows) = {r}" by simp
  then show ?thesis by auto
qed

text \<open>A unique column (or \<open>unique_together\<close> columns) selects at most one row.\<close>

lemma filter_key_le_one:
  "distinct (map f rows) \<Longrightarrow> length (filter (\<lambda>r. f r = k) rows) \<le> 1"
proof (induction rows)
  case Nil
  then show ?case by simp
next
  case (Cons a rows)
  show ?case
  proof (cases "f a = k")
    case True
    from Cons.prems True have "k \<notin> f ` set rows" by simp
    then have "filter (\<lambda>r. f r = k) rows = []" by (auto simp: filter_empty_conv)
    with True show ?thesis by simp
  next
    case False
    with Cons show ?thesis by simp
  qed
qed

lemma objects_get_unique:
  assumes "distinct (map f rows)"
  shows "objects_get (\<lambda>r. f r = k) rows \<noteq> MultipleObjectsReturned"
proof -
  define xs where "xs = filter (\<lambda>r. f r = k) rows"
  have "length xs \<le> 1" unfolding xs_def using assms by (rule filter_key_le_one)
  then have "xs = [] \<or> (\<exists>x. xs = [x])" by (cases xs) auto
  then show ?thesis unfolding objects_get_def xs_def[symmetric] by auto
qed

lemma objects_get_key_Row:
  assumes "distinct (map f rows)" and "r \<in> set rows" and "f r = k"
  shows "objects_get (\<lambda>r. f r = k) rows = Row r"
proof (cases "objects_get (\<lambda>r. f r = k) rows")
  case DoesNotExist
  from objects_get_DoesNotExistD[OF this assms(2)] assms(3) show ?thesis by simp
next
  case MultipleObjectsReturned
  with objects_get_unique[OF assms(1), of k] show ?thesis by simp
next
  case (Row r')
  from objects_get_RowD[OF this] assms(2,3) show ?thesis using Row by auto
qed

lemma set_user_roles_all:
  "set (user_roles_all db u) = {r \<in> set (user_roles db). ur_user r = user_id u}"
  by (auto simp: user_roles_all_def)

section \<open>The permission check\<close>

lemma has_permission_loop_no_rule:
  assumes "\<forall>ur \<in> set urs. \<forall>r \<in> set rules.
             rule_role r = ur_role ur \<longrightarrow> element_name r \<noteq> resource"
  shows "has_permission_loop rules resource action req urs = Inr (False, req)"
  using assms
proof (induction urs)
  case Nil
  then show ?case by simp
next
  case (Cons ur urs)
  have "objects_get (\<lambda>r. rule_role r = ur_role ur \<and> element_name r = resource) rules
          = DoesNotExist"
    using Cons.prems by (intro objects_get_none) auto
  then show ?case using Cons by simp
qed

text \<open>
  With at most one rule per (role, element), the loop raises nothing and grants exactly
  when some role of the list has a rule with the global or the own permission; a refusal
  leaves the request as it was.
\<close>

lemma has_permission_loop_granted_iff:
  assumes "distinct (map (\<lambda>r. (rule_role r, element_name r)) rules)"
  shows "\<exists>b req'. has_permission_loop rules resource action req urs = Inr (b, req') \<and>
           (b \<longleftrightarrow> (\<exists>ur \<in> set urs. \<exists>r \<in> set rules.
                     rule_role r = ur_role ur \<and> element_name r = resource \<and>
                     (has_global_permission r action \<or> has_own_permission r action))) \<and>
           (\<not> b \<longrightarrow> req' = req)"
proof (induction urs)
  case Nil
  show ?case by (intro exI[of _ False] exI[of _ req]) simp
next
  case (Cons ur urs)
  let ?c = "\<lambda>r. rule_role r = ur_role ur \<and> element_name r = resource"
  have nm: "objects_get ?c rules \<noteq> MultipleObjectsReturned"
    using objects_get_unique[OF assms, of "(ur_role ur, resource)"] by simp
  show ?case
  proof (cases "objects_get ?c rules")
    case DoesNotExist
    then have "\<forall>r \<in> set rules. \<not> ?c r" by (auto dest: objects_get_DoesNotExistD)
    with Cons DoesNotExist show ?thesis by auto
  next
    case MultipleObjectsReturned
    with nm show ?thesis by simp
  next
    case (Row rule)
    note R = objects_get_RowD[OF Row]
    show ?thesis
    proof (cases "has_global_permission rule action \<or> has_own_permission rule action")
      case True
      with Row R show ?thesis by auto
    next
      case False
      with R have "\<forall>r \<in> set rules. ?c r \<longrightarrow>
                     \<not> (has_global_permission r action \<or> has_own_permission r action)"
        by auto
      with Cons Row False show ?thesis by auto
    qed
  qed
qed

lemma get_action_from_method_other:
  "m \<notin> {''GET'', ''POST'', ''PUT'', ''PATCH'', ''DELETE''}
     \<Longrightarrow> get_action_from_method m = ''read''"
  by (simp add: get_action_from_method_def)

lemma read_permissions:
  "has_global_permission r ''read'' = read_all_permission r"
  "has_own_permission r ''read'' = read_own_permission r"
  by (simp_all add: has_global_permission_def has_own_permission_def)

text \<open>
  C1. The claim: the decision does not depend on the order in which the roles are
  examined, and a global grant of any role gives the unfiltered decision. The loop
  returns at the first role whose rule grants anything. A user holding role 2 (global
  read on \<open>products\<close>) and, assigned later, role 1 (own read only) is examined role 1
  first and gets the owner filter; with the two assignment times exchanged the same user
  gets the unfiltered grant.
\<close>

theorem decision_depends_on_assignment_order:
  "map_sum id decision_of
     (has_permission
        (example_db\<lparr>user_roles := [\<lparr>ur_user = 7, ur_role = 2, assigned_at = 1\<rparr>,
                                   \<lparr>ur_user = 7, ur_role = 1, assigned_at = 2\<rparr>]\<rparr>)
        (request_of ''GET'') mock_product_view) = Inr GrantedOwnOnly \<and>
   map_sum id decision_of
     (has_permission
        (example_db\<lparr>user_roles := [\<lparr>ur_user = 7, ur_role = 2, assigned_at = 2\<rparr>,
                                   \<lparr>ur_user = 7, ur_role = 1, assigned_at = 1\<rparr>]\<rparr>)
        (request_of ''GET'') mock_product_view) = Inr GrantedGlobal"
  by (simp add: example_defs has_permission_def user_roles_all_def objects_get_def
        get_action_from_method_def has_global_permission_def has_own_permission_def
        decision_of_def)

text \<open>
  C3. A user none of whose roles has a rule for the requested resource is refused, for
  every method: \<open>has_permission\<close> returns \<open>False\<close> and leaves the request untouched, which
  is the decision \<open>Denied\<close>; and the loop over the roles does so for every action.
\<close>

theorem no_rule_denied:
  assumes "request_user req = Some u"
    and "view_resource v = Some resource"
    and "\<forall>ur \<in> set (user_roles db). ur_user ur = user_id u \<longrightarrow>
           (\<forall>r \<in> set (access_role_rules db).
              rule_role r = ur_role ur \<longrightarrow> element_name r \<noteq> resource)"
  shows "has_permission db req v = Inr (False, req) \<and> decision_of (False, req) = Denied \<and>
         (\<forall>action. has_permission_loop (access_role_rules db) resource action req
                     (user_roles_all db u) = Inr (False, req))"
proof -
  have "has_permission_loop (access_role_rules db) resource action req (user_roles_all db u)
          = Inr (False, req)" for action
    using assms(3) by (intro has_permission_loop_no_rule) (auto simp: set_user_roles_all)
  then show ?thesis using assms(1,2) by (simp add: has_permission_def decision_of_def)
qed

theorem no_rule_denied_witness:
  "has_permission
     (example_db\<lparr>user_roles := [\<lparr>ur_user = 7, ur_role = 1, assigned_at = 1\<rparr>]\<rparr>)
     (request_of ''GET'') \<lparr>resource_name = Some ''users'', queryset_model_name = None\<rparr>
   = Inr (False, request_of ''GET'') \<and> decision_of (False, request_of ''GET'') = Denied"
proof -
  let ?db = "example_db\<lparr>user_roles := [\<lparr>ur_user = 7, ur_role = 1, assigned_at = 1\<rparr>]\<rparr>"
  have h1: "request_user (request_of ''GET'') = Some alice" by (simp add: request_of_def)
  have h2: "view_resource \<lparr>resource_name = Some ''users'', queryset_model_name = None\<rparr>
              = Some ''users''" by (simp add: view_resource_def)
  have h3: "\<forall>ur \<in> set (user_roles ?db). ur_user ur = user_id alice \<longrightarrow>
              (\<forall>r \<in> set (access_role_rules ?db).
                 rule_role r = ur_role ur \<longrightarrow> element_name r \<noteq> ''users'')"
    by (simp add: example_defs)
  show ?thesis using no_rule_denied[OF h1 h2 h3] by blast
qed

text \<open>
  C10. A method outside GET, POST, PUT, PATCH and DELETE is checked as the action
  \<open>read\<close>. So, with at most one rule per (role, element), such a request is granted when
  some role of the user has a rule on the resource with \<open>read_all_permission\<close> or
  \<open>read_own_permission\<close>, and refused when no rule of the user's roles on the resource has
  either.
\<close>

theorem other_methods_checked_as_read:
  assumes "http_method req \<notin> {''GET'', ''POST'', ''PUT'', ''PATCH'', ''DELETE''}"
    and "request_user req = Some u"
    and "view_resource v = Some resource"
    and "distinct (map (\<lambda>r. (rule_role r, element_name r)) (access_role_rules db))"
  shows "get_action_from_method (http_method req) = ''read'' \<and>
         ((\<exists>ur \<in> set (user_roles db). ur_user ur = user_id u \<and>
             (\<exists>r \<in> set (access_role_rules db).
                rule_role r = ur_role ur \<and> element_name r = resource \<and>
                (read_all_permission r \<or> read_own_permission r)))
            \<longrightarrow> (\<exists>req'. has_permission db req v = Inr (True, req'))) \<and>
         ((\<forall>ur \<in> set (user_roles db). ur_user ur = user_id u \<longrightarrow>
             (\<forall>r \<in> set (access_role_rules db).
                rule_role r = ur_role ur \<and> element_name r = resource \<longrightarrow>
                \<not> read_all_permission r \<and> \<not> read_own_permission r))
            \<longrightarrow> has_permission db req v = Inr (False, req))"
proof -
  have a: "get_action_from_method (http_method req) = ''read''"
    using assms(1) by (rule get_action_from_method_other)
  have hp: "has_permission db req v =
              has_permission_loop (access_role_rules db) resource ''read'' req
                (user_roles_all db u)"
    using assms(2,3) a by (simp add: has_permission_def)
  obtain b req' where
    L: "has_permission_loop (access_role_rules db) resource ''read'' req
          (user_roles_all db u) = Inr (b, req')"
    and B: "b \<longleftrightarrow> (\<exists>ur \<in> set (user_roles_all db u). \<exists>r \<in> set (access_role_rules db).
                 rule_role r = ur_role ur \<and> element_name r = resource \<and>
                 (has_global_permission r ''read'' \<or> has_own_permission r ''read''))"
    and N: "\<not> b \<longrightarrow> req' = req"
    using has_permission_loop_granted_iff[OF assms(4), of resource "''read''" req
            "user_roles_all db u"] by blast
  have g: "(\<exists>ur \<in> set (user_roles db). ur_user ur = user_id u \<and>
             (\<exists>r \<in> set (access_role_rules db).
                rule_role r = ur_role ur \<and> element_name r = resource \<and>
                (read_all_permission r \<or> read_own_permission r)))
            \<longrightarrow> (\<exists>req'. has_permission db req v = Inr (True, req'))"
    using L B hp by (auto simp: set_user_roles_all read_permissions)
  have d: "(\<forall>ur \<in> set (user_roles db). ur_user ur = user_id u \<longrightarrow>
             (\<forall>r \<in> set (access_role_rules db).
                rule_role r = ur_role ur \<and> element_name r = resource \<longrightarrow>
                \<not> read_all_permission r \<and> \<not> read_own_permission r))
            \<longrightarrow> has_permission db req v = Inr (False, req)"
    using L B N hp by (auto simp: set_user_roles_all read_permissions)
  from a g d show ?thesis by blast
qed

theorem other_methods_checked_as_read_witness:
  "get_action_from_method ''HEAD'' = ''read'' \<and>
   (\<exists>req'. has_permission
      (example_db\<lparr>user_roles := [\<lparr>ur_user = 7, ur_role = 1, assigned_at = 1\<rparr>]\<rparr>)
      (request_of ''HEAD'') mock_product_view = Inr (True, req'))"
proof -
  let ?db = "example_db\<lparr>user_roles := [\<lparr>ur_user = 7, ur_role = 1, assigned_at = 1\<rparr>]\<rparr>"
  have h1: "http_method (request_of ''HEAD'') \<notin> {''GET'', ''POST'', ''PUT'', ''PATCH'', ''DELETE''}"
    by (simp add: request_of_def)
  have h2: "request_user (request_of ''HEAD'') = Some alice" by (simp add: request_of_def)
  have h3: "view_resource mock_product_view = Some ''products''" by (simp add: example_defs)
  have h4: "distinct (map (\<lambda>r. (rule_role r, element_name r)) (access_role_rules ?db))"
    by (simp add: example_defs)
  have g: "\<exists>ur \<in> set (user_roles ?db). ur_user ur = user_id alice \<and>
             (\<exists>r \<in> set (access_role_rules ?db). rule_role r = ur_role ur \<and>
                element_name r = ''products'' \<and>
                (read_all_permission r \<or> read_own_permission r))"
    by (simp add: example_defs)
  show ?thesis using other_methods_checked_as_read[OF h1 h2 h3 h4] g
    by (simp add: request_of_def)
qed

subsection \<open>What does not depend on the order of the roles\<close>

text \<open>
  The object-level check moves on to the next role when a rule's own grant does not
  suffice, so with at most one rule per (role, element) it grants exactly when some role
  has the global permission, or the own permission on an object the user owns.
\<close>

lemma has_object_permission_loop_iff:
  assumes "distinct (map (\<lambda>r. (rule_role r, element_name r)) rules)"
  shows "has_object_permission_loop rules resource action u obj urs =
           Inr (\<exists>ur \<in> set urs. \<exists>r \<in> set rules.
                  rule_role r = ur_role ur \<and> element_name r = resource \<and>
                  (has_global_permission r action \<or>
                   (has_own_permission r action \<and> is_owner u obj)))"
proof (induction urs)
  case Nil
  show ?case by simp
next
  case (Cons ur urs)
  let ?c = "\<lambda>r. rule_role r = ur_role ur \<and> element_name r = resource"
  have nm: "objects_get ?c rules \<noteq> MultipleObjectsReturned"
    using objects_get_unique[OF assms, of "(ur_role ur, resource)"] by simp
  show ?case
  proof (cases "objects_get ?c rules")
    case DoesNotExist
    then have "\<forall>r \<in> set rules. \<not> ?c r" by (auto dest: objects_get_DoesNotExistD)
    with Cons DoesNotExist show ?thesis by auto
  next
    case MultipleObjectsReturned
    with nm show ?thesis by simp
  next
    case (Row rule)
    note R = objects_get_RowD[OF Row]
    show ?thesis
    proof (cases "has_global_permission rule action \<or>
                  (has_own_permission rule action \<and> is_owner u obj)")
      case True
      with Row R show ?thesis by auto
    next
      case False
      with R have "\<forall>r \<in> set rules. ?c r \<longrightarrow>
                     \<not> (has_global_permission r action \<or>
                        (has_own_permission r action \<and> is_owner u obj))"
        by auto
      with Cons Row False show ?thesis by auto
    qed
  qed
qed

text \<open>
  With at most one rule per (role, element), the result of the loop of
  \<open>has_object_permission\<close> is the same for any two orders (and repetitions) of the same
  role assignments.
\<close>

theorem has_object_permission_order_independent:
  assumes "distinct (map (\<lambda>r. (rule_role r, element_name r)) rules)"
    and "set urs = set urs'"
  shows "has_object_permission_loop rules resource action u obj urs =
         has_object_permission_loop rules resource action u obj urs'"
  using assms(2) by (simp add: has_object_permission_loop_iff[OF assms(1)])

theorem has_object_permission_order_independent_witness:
  "has_object_permission_loop [own_rule, global_rule] ''products'' ''read'' alice
     \<lparr>obj_owner = Some 8, obj_user = None, obj_created_by = None\<rparr>
     [\<lparr>ur_user = 7, ur_role = 1, assigned_at = 2\<rparr>, \<lparr>ur_user = 7, ur_role = 2, assigned_at = 1\<rparr>]
   = has_object_permission_loop [own_rule, global_rule] ''products'' ''read'' alice
     \<lparr>obj_owner = Some 8, obj_user = None, obj_created_by = None\<rparr>
     [\<lparr>ur_user = 7, ur_role = 2, assigned_at = 1\<rparr>, \<lparr>ur_user = 7, ur_role = 1, assigned_at = 2\<rparr>]"
proof -
  have h1: "distinct (map (\<lambda>r. (rule_role r, element_name r)) [own_rule, global_rule])"
    by (simp add: example_defs)
  have h2: "set [\<lparr>ur_user = 7, ur_role = 1, assigned_at = 2\<rparr>, \<lparr>ur_user = 7, ur_role = 2, assigned_at = (1::int)\<rparr>]
          = set [\<lparr>ur_user = 7, ur_role = 2, assigned_at = 1\<rparr>, \<lparr>ur_user = 7, ur_role = 1, assigned_at = 2\<rparr>]"
    by auto
  show ?thesis using has_object_permission_order_independent[OF h1 h2] .
qed

text \<open>
  With at most one rule per (role, element), whether the loop of \<open>has_permission\<close>
  grants or refuses is the same for any two orders of the same role assignments; only
  the owner filter depends on the order.
\<close>

theorem has_permission_access_order_independent:
  assumes "distinct (map (\<lambda>r. (rule_role r, element_name r)) rules)"
    and "set urs = set urs'"
  shows "map_sum id fst (has_permission_loop rules resource action req urs) =
         map_sum id fst (has_permission_loop rules resource action req urs')"
proof -
  from has_permission_loop_granted_iff[OF assms(1), of resource action req urs]
  obtain b r where 1: "has_permission_loop rules resource action req urs = Inr (b, r)"
    and b: "b \<longleftrightarrow> (\<exists>ur \<in> set urs. \<exists>r \<in> set rules.
                     rule_role r = ur_role ur \<and> element_name r = resource \<and>
                     (has_global_permission r action \<or> has_own_permission r action))"
    by blast
  from has_permission_loop_granted_iff[OF assms(1), of resource action req urs']
  obtain b' r' where 2: "has_permission_loop rules resource action req urs' = Inr (b', r')"
    and b': "b' \<longleftrightarrow> (\<exists>ur \<in> set urs'. \<exists>r \<in> set rules.
                     rule_role r = ur_role ur \<and> element_name r = resource \<and>
                     (has_global_permission r action \<or> has_own_permission r action))"
    by blast
  from b b' assms(2) have "b = b'" by simp
  with 1 2 show ?thesis by simp
qed

theorem has_permission_access_order_independent_witness:
  "map_sum id fst (has_permission_loop [own_rule, global_rule] ''products'' ''read''
     (request_of ''GET'')
     [\<lparr>ur_user = 7, ur_role = 1, assigned_at = 2\<rparr>, \<lparr>ur_user = 7, ur_role = 2, assigned_at = 1\<rparr>])
   = map_sum id fst (has_permission_loop [own_rule, global_rule] ''products'' ''read''
     (request_of ''GET'')
     [\<lparr>ur_user = 7, ur_role = 2, assigned_at = 1\<rparr>, \<lparr>ur_user = 7, ur_role = 1, assigned_at = 2\<rparr>])"
proof -
  have h1: "distinct (map (\<lambda>r. (rule_role r, element_name r)) [own_rule, global_rule])"
    by (simp add: example_defs)
  have h2: "set [\<lparr>ur_user = 7, ur_role = 1, assigned_at = 2\<rparr>, \<lparr>ur_user = 7, ur_role = 2, assigned_at = (1::int)\<rparr>]
          = set [\<lparr>ur_user = 7, ur_role = 2, assigned_at = 1\<rparr>, \<lparr>ur_user = 7, ur_role = 1, assigned_at = 2\<rparr>]"
    by auto
  show ?thesis using has_permission_access_order_independent[OF h1 h2] .
qed

section \<open>Authentication and sessions\<close>

lemma find_SomeD: "find P xs = Some x \<Longrightarrow> P x \<and> x \<in> set xs"
  by (auto simp: find_Some_iff)

text \<open>What a successful \<open>authenticate\<close> went through.\<close>

lemma authenticate_cases:
  "authenticate verify is_uuid db now hdr = Inr (db', Some (u, tok)) \<Longrightarrow>
     \<exists>p sid s. verify tok = Some p \<and> claim_session_id p = Some sid \<and>
       get_session db sid now = Row s \<and> session_owner db s = Some u \<and> db' = session_save db s now"
  unfolding authenticate_def
  by (auto simp: Let_def jwt_decode_def split: option.splits if_splits sum.splits bool.splits jwt_error.splits query_result.splits)

text \<open>Without a header, or with one that does not start with \<open>Bearer\<close>, nobody is resolved.\<close>

lemma authenticate_without_bearer:
  "hdr = None \<or> (\<exists>h. hdr = Some h \<and> take 7 h \<noteq> ''Bearer '')
     \<Longrightarrow> authenticate verify is_uuid db now hdr = Inr (db, None)"
  by (auto simp: authenticate_def)

text \<open>
  The model method \<open>is_expired\<close> compares the other way round (\<open>now > expires_at\<close>) and
  still answers \<open>False\<close> at the boundary; \<open>authenticate\<close> does not call it.
\<close>

lemma is_expired_at_boundary: "expires_at s = now \<Longrightarrow> \<not> is_expired s now"
  by (simp add: is_expired_def)

text \<open>
  C5. A session whose \<open>expires_at\<close> equals the current time is not found by the session
  query of \<open>authenticate\<close> (\<open>expires_at__gt=now\<close>), so a token that names it is refused;
  a session the query accepts has \<open>now < expires_at\<close>, strictly.
\<close>

theorem session_expiring_now_unusable:
  assumes "verify token = Some p"
    and "claim_session_id p = Some sid"
    and "is_uuid sid"
    and "\<forall>s \<in> set (sessions db). session_id s = sid \<longrightarrow> expires_at s = now"
  shows "get_session db sid now = DoesNotExist \<and>
         (\<exists>m. authenticate verify is_uuid db now (Some (''Bearer '' @ token))
                = Inl (AuthenticationFailed m)) \<and>
         (\<forall>s t. session_usable db sid t s \<longrightarrow> t < expires_at s)"
proof -
  have g: "get_session db sid now = DoesNotExist"
    unfolding get_session_def using assms(4)
    by (intro objects_get_none) (auto simp: session_usable_def)
  have "\<exists>m. authenticate verify is_uuid db now (Some (''Bearer '' @ token))
              = Inl (AuthenticationFailed m)"
    using assms(1,2,3) g
    by (auto simp: authenticate_def is_token_revoked_def jwt_decode_def Let_def
             split: option.splits)
  moreover have "\<forall>s t. session_usable db sid t s \<longrightarrow> t < expires_at s"
    by (simp add: session_usable_def)
  ultimately show ?thesis using g by simp
qed

theorem session_expiring_now_unusable_witness:
  "get_session (example_db\<lparr>sessions := [example_session sid1 7 0]\<rparr>) sid1 604800 = DoesNotExist \<and>
   (\<exists>m. authenticate (map_of [(''tok-1'', example_payload sid1 None 700000)]) example_is_uuid
          (example_db\<lparr>sessions := [example_session sid1 7 0]\<rparr>) 604800
          (Some (''Bearer '' @ ''tok-1'')) = Inl (AuthenticationFailed m))"
proof -
  let ?db = "example_db\<lparr>sessions := [example_session sid1 7 0]\<rparr>"
  have h1: "map_of [(''tok-1'', example_payload sid1 None 700000)] ''tok-1''
              = Some (example_payload sid1 None 700000)" by simp
  have h2: "claim_session_id (example_payload sid1 None 700000) = Some sid1"
    by (simp add: example_payload_def)
  have h3: "example_is_uuid sid1" by (simp add: example_is_uuid_def)
  have h4: "\<forall>s \<in> set (sessions ?db). session_id s = sid1 \<longrightarrow> expires_at s = 604800"
    by (simp add: auth_defs)
  show ?thesis
    using session_expiring_now_unusable[
        where verify = "map_of [(''tok-1'', example_payload sid1 None 700000)]"
        and is_uuid = example_is_uuid and token = "''tok-1''" and sid = "sid1"
        and db = ?db and now = 604800, OF h1 h2 h3 h4] by blast
qed

text \<open>
  C8. For a token that does not decode as a validly signed structure, both
  \<open>_is_token_revoked\<close> checks (authentication class and middleware) return \<open>False\<close>; the
  exception of \<open>jwt.decode\<close> is caught, none leaves the check.
\<close>

theorem malformed_token_not_revoked:
  assumes "verify token = None"
  shows "is_token_revoked verify db now token = Inr False \<and>
         middleware_is_token_revoked verify db now token = Inr False"
  using assms by (simp add: is_token_revoked_def middleware_is_token_revoked_def jwt_decode_def)

theorem malformed_token_not_revoked_witness:
  "is_token_revoked (map_of [(''tok-1'', example_payload sid1 (Some ''jti-1'') 9000)])
     example_db 10 ''not-a-token'' = Inr False \<and>
   middleware_is_token_revoked (map_of [(''tok-1'', example_payload sid1 (Some ''jti-1'') 9000)])
     example_db 10 ''not-a-token'' = Inr False"
proof -
  have h: "map_of [(''tok-1'', example_payload sid1 (Some ''jti-1'') 9000)] ''not-a-token'' = None"
    by simp
  show ?thesis
    using malformed_token_not_revoked[
        where verify = "map_of [(''tok-1'', example_payload sid1 (Some ''jti-1'') 9000)]"
        and token = "''not-a-token''" and db = example_db and now = 10, OF h] .
qed

section \<open>Logout\<close>

lemma logout_sessions:
  assumes "logout verify db now req = Inr db'" and "request_user req = Some u"
  shows "sessions db' = map (\<lambda>s. if session_user s = user_id u \<and> session_is_active s
                                   then s\<lparr>session_is_active := False\<rparr> else s) (sessions db)"
    and "users db' = users db"
  using assms by (auto simp: logout_def split: sum.splits)

lemma deactivate_frame:
  "filter (\<lambda>s. session_user s \<noteq> k)
     (map (\<lambda>s. if session_user s = k \<and> session_is_active s
               then s\<lparr>session_is_active := False\<rparr> else s) xs)
   = filter (\<lambda>s. session_user s \<noteq> k) xs"
  by (induction xs) auto

text \<open>
  C9. A successful logout leaves the requesting user without any active session, whichever
  session the presented token belongs to; sessions of other users are untouched; and
  afterwards no header resolves to that user (until a new login creates a session).
\<close>

theorem logout_deactivates_all_sessions:
  assumes "logout verify db now req = Inr db'"
    and "request_user req = Some u"
  shows "(\<forall>s \<in> set (sessions db'). session_user s = user_id u \<longrightarrow> \<not> session_is_active s) \<and>
         filter (\<lambda>s. session_user s \<noteq> user_id u) (sessions db')
           = filter (\<lambda>s. session_user s \<noteq> user_id u) (sessions db) \<and>
         (\<forall>t hdr db'' u' tok. authenticate verify is_uuid db' t hdr = Inr (db'', Some (u', tok))
             \<longrightarrow> user_id u' \<noteq> user_id u)"
proof -
  note S = logout_sessions[OF assms]
  have a: "\<forall>s \<in> set (sessions db'). session_user s = user_id u \<longrightarrow> \<not> session_is_active s"
    unfolding S(1) by auto
  have b: "filter (\<lambda>s. session_user s \<noteq> user_id u) (sessions db')
           = filter (\<lambda>s. session_user s \<noteq> user_id u) (sessions db)"
    unfolding S(1) by (rule deactivate_frame)
  have c: "user_id u' \<noteq> user_id u"
    if "authenticate verify is_uuid db' t hdr = Inr (db'', Some (u', tok))" for t hdr db'' u' tok
  proof -
    from authenticate_cases[OF that] obtain sid s where
      g: "get_session db' sid t = Row s" and o: "session_owner db' s = Some u'" by blast
    from objects_get_RowD[OF g[unfolded get_session_def]]
    have "s \<in> set (sessions db')" "session_is_active s" by (auto simp: session_usable_def)
    moreover from o have "user_id u' = session_user s"
      by (auto simp: session_owner_def dest: find_SomeD)
    ultimately show ?thesis using a by auto
  qed
  from a b c show ?thesis by blast
qed

theorem logout_deactivates_all_sessions_witness:
  "logout (map_of [(''tok-1'', example_payload sid1 None 700000)])
     (example_db\<lparr>sessions := [example_session sid1 7 0, example_session sid2 7 10,
                                 example_session sid3 8 20]\<rparr>)
     50 (logout_request ''tok-1'')
   = Inr (example_db\<lparr>sessions :=
            [(example_session sid1 7 0)\<lparr>session_is_active := False\<rparr>,
             (example_session sid2 7 10)\<lparr>session_is_active := False\<rparr>,
             example_session sid3 8 20]\<rparr>) \<and>
   \<not> (\<exists>s \<in> set (sessions (example_db\<lparr>sessions :=
            [(example_session sid1 7 0)\<lparr>session_is_active := False\<rparr>,
             (example_session sid2 7 10)\<lparr>session_is_active := False\<rparr>,
             example_session sid3 8 20]\<rparr>)).
         session_user s = user_id alice \<and> session_is_active s) \<and>
   \<not> (\<exists>t hdr db'' u' tok.
         authenticate (map_of [(''tok-1'', example_payload sid1 None 700000)]) example_is_uuid
           (example_db\<lparr>sessions :=
              [(example_session sid1 7 0)\<lparr>session_is_active := False\<rparr>,
               (example_session sid2 7 10)\<lparr>session_is_active := False\<rparr>,
               example_session sid3 8 20]\<rparr>) t hdr = Inr (db'', Some (u', tok)) \<and>
         user_id u' = user_id alice)"
proof -
  let ?V = "map_of [(''tok-1'', example_payload sid1 None 700000)]"
  let ?db = "example_db\<lparr>sessions := [example_session sid1 7 0, example_session sid2 7 10,
                                       example_session sid3 8 20]\<rparr>"
  let ?db' = "example_db\<lparr>sessions :=
            [(example_session sid1 7 0)\<lparr>session_is_active := False\<rparr>,
             (example_session sid2 7 10)\<lparr>session_is_active := False\<rparr>,
             example_session sid3 8 20]\<rparr>"
  have h1: "logout ?V ?db 50 (logout_request ''tok-1'') = Inr ?db'"
    by (simp add: logout_def blacklist_token_def jwt_decode_def auth_defs example_defs)
  have h2: "request_user (logout_request ''tok-1'') = Some alice"
    by (simp add: logout_request_def)
  from logout_deactivates_all_sessions[OF h1 h2] h1 show ?thesis by blast
qed

subsection \<open>The revocation ledger\<close>

lemma blacklist_token_truthy:
  assumes "verify token = Some p" "token \<noteq> []" "claim_jti p = Some j" "j \<noteq> []"
    "claim_exp p = Some e" "e \<noteq> 0" "- 62135596800 \<le> e" "e \<le> 253402300799"
  shows "blacklist_token verify ledger now (Some token) = revoked_token_get_or_create ledger j e now"
  using assms by (simp add: blacklist_token_def jwt_decode_def fromtimestamp_def)

lemma get_or_create_new:
  assumes "\<forall>r \<in> set ledger. jti r \<noteq> j"
  shows "revoked_token_get_or_create ledger j e now
           = Inr (ledger @ [\<lparr>jti = j, revoked_at = now, token_expires_at = e\<rparr>])"
  using assms by (simp add: revoked_token_get_or_create_def objects_get_none)

lemma get_or_create_existing:
  assumes "distinct (map jti ledger)" "r \<in> set ledger" "jti r = j"
  shows "revoked_token_get_or_create ledger j e now = Inr ledger"
  using objects_get_key_Row[OF assms] by (simp add: revoked_token_get_or_create_def)

lemma get_or_create_once:
  assumes "distinct (map jti ledger)"
    and "\<forall>r \<in> set ledger. jti r = j \<longrightarrow> e \<le> token_expires_at r"
  shows "\<exists>ledger'. revoked_token_get_or_create ledger j e now = Inr ledger' \<and>
           distinct (map jti ledger') \<and>
           length (filter (\<lambda>r. jti r = j) ledger') = 1 \<and>
           (\<exists>r \<in> set ledger'. jti r = j \<and> e \<le> token_expires_at r)"
proof (cases "\<exists>r \<in> set ledger. jti r = j")
  case True
  then obtain r where r: "r \<in> set ledger" "jti r = j" by blast
  have le: "length (filter (\<lambda>r. jti r = j) ledger) \<le> 1"
    using assms(1) by (rule filter_key_le_one)
  have "r \<in> set (filter (\<lambda>r. jti r = j) ledger)" using r by simp
  then have "filter (\<lambda>r. jti r = j) ledger \<noteq> []" by (metis empty_iff list.set(1))
  with le have "length (filter (\<lambda>r. jti r = j) ledger) = 1"
    by (cases "filter (\<lambda>r. jti r = j) ledger") auto
  with get_or_create_existing[OF assms(1) r] assms r show ?thesis by auto
next
  case False
  then have n: "\<forall>r \<in> set ledger. jti r \<noteq> j" by blast
  then have "filter (\<lambda>r. jti r = j) ledger = []" by (auto simp: filter_empty_conv)
  with get_or_create_new[OF n] assms(1) n show ?thesis by auto
qed

text \<open>
  C6, as amended. For a non-empty token whose payload has a non-empty \<open>jti\<close> and a non-zero
  \<open>exp\<close> that a datetime can represent, on a ledger with unique \<open>jti\<close> in which any entry
  already present for that \<open>jti\<close> expires no earlier than \<open>exp\<close>: two logouts with the
  token both succeed, leave exactly one ledger entry for the \<open>jti\<close> (the second changes
  nothing in the ledger), and the token is reported revoked after the first and after
  the second, at every time before \<open>exp\<close>.
\<close>

theorem revoke_twice_one_entry:
  assumes "verify token = Some p" and "token \<noteq> []"
    and "claim_jti p = Some j" and "j \<noteq> []"
    and "claim_exp p = Some e" and "e \<noteq> 0"
    and "- 62135596800 \<le> e" and "e \<le> 253402300799"
    and "request_user req = Some u" and "auth req = Some token"
    and "distinct (map jti (revoked_tokens db))"
    and "\<forall>r \<in> set (revoked_tokens db). jti r = j \<longrightarrow> e \<le> token_expires_at r"
  shows "\<exists>db1 db2.
           logout verify db t1 req = Inr db1 \<and> logout verify db1 t2 req = Inr db2 \<and>
           length (filter (\<lambda>r. jti r = j) (revoked_tokens db1)) = 1 \<and>
           revoked_tokens db2 = revoked_tokens db1 \<and>
           (\<forall>now. now < e \<longrightarrow> is_token_revoked verify db1 now token = Inr True \<and>
                                is_token_revoked verify db2 now token = Inr True)"
proof -
  have B: "blacklist_token verify ledger now (Some token)
             = revoked_token_get_or_create ledger j e now" for ledger now
    using assms(1-8) by (rule blacklist_token_truthy)
  from get_or_create_once[OF assms(11,12), of t1] obtain l1 where
    l1: "revoked_token_get_or_create (revoked_tokens db) j e t1 = Inr l1"
    and d1: "distinct (map jti l1)"
    and c1: "length (filter (\<lambda>r. jti r = j) l1) = 1"
    and x1: "\<exists>r \<in> set l1. jti r = j \<and> e \<le> token_expires_at r" by blast
  define db1 where "db1 = db\<lparr>revoked_tokens := l1,
      sessions := map (\<lambda>s. if session_user s = user_id u \<and> session_is_active s
                            then s\<lparr>session_is_active := False\<rparr> else s) (sessions db)\<rparr>"
  have L1: "logout verify db t1 req = Inr db1"
    using assms(9,10) B l1 by (simp add: logout_def db1_def)
  have r1: "revoked_tokens db1 = l1" by (simp add: db1_def)
  from x1 obtain r where r: "r \<in> set l1" "jti r = j" "e \<le> token_expires_at r" by blast
  have l2: "revoked_token_get_or_create l1 j e t2 = Inr l1"
    using get_or_create_existing[OF d1 r(1,2)] .
  define db2 where "db2 = db1\<lparr>revoked_tokens := l1,
      sessions := map (\<lambda>s. if session_user s = user_id u \<and> session_is_active s
                            then s\<lparr>session_is_active := False\<rparr> else s) (sessions db1)\<rparr>"
  have L2: "logout verify db1 t2 req = Inr db2"
    using assms(9,10) B l2 r1 by (simp add: logout_def db2_def)
  have r2: "revoked_tokens db2 = l1" by (simp add: db2_def)
  have rev: "is_token_revoked verify d now token = Inr True"
    if "now < e" "revoked_tokens d = l1" for d now
  proof -
    from that(1) r(3) have "now < token_expires_at r" by simp
    with r(1,2) that(2) assms(1,3,4) show ?thesis
      by (auto simp: is_token_revoked_def jwt_decode_def split: option.splits)
  qed
  show ?thesis
    using L1 L2 c1 r1 r2 rev by (intro exI[of _ db1] exI[of _ db2]) simp
qed

theorem revoke_twice_one_entry_witness:
  "authenticate (map_of [(''tok-j'', example_payload sid1 (Some ''jti-1'') 9000)])
     example_is_uuid
     (session_db 0 True 0 [\<lparr>jti = ''jti-0'', revoked_at = 5, token_expires_at = 50\<rparr>])
     100 (Some ''Bearer tok-j'')
   = Inr (session_db 0 True 100 [\<lparr>jti = ''jti-0'', revoked_at = 5, token_expires_at = 50\<rparr>],
          Some (alice, ''tok-j'')) \<and>
   (\<exists>db1 db2.
     logout (map_of [(''tok-j'', example_payload sid1 (Some ''jti-1'') 9000)])
       (session_db 0 True 100 [\<lparr>jti = ''jti-0'', revoked_at = 5, token_expires_at = 50\<rparr>])
       101 (logout_request ''tok-j'') = Inr db1 \<and>
     logout (map_of [(''tok-j'', example_payload sid1 (Some ''jti-1'') 9000)])
       db1 102 (logout_request ''tok-j'') = Inr db2 \<and>
     length (filter (\<lambda>r. jti r = ''jti-1'') (revoked_tokens db1)) = 1 \<and>
     revoked_tokens db2 = revoked_tokens db1 \<and>
     is_token_revoked (map_of [(''tok-j'', example_payload sid1 (Some ''jti-1'') 9000)])
       db1 8999 ''tok-j'' = Inr True \<and>
     is_token_revoked (map_of [(''tok-j'', example_payload sid1 (Some ''jti-1'') 9000)])
       db2 8999 ''tok-j'' = Inr True)"
proof -
  let ?V = "map_of [(''tok-j'', example_payload sid1 (Some ''jti-1'') 9000)]"
  let ?L = "[\<lparr>jti = ''jti-0'', revoked_at = 5, token_expires_at = 50\<rparr>]"
  let ?db = "session_db 0 True 100 ?L"
  have a: "authenticate ?V example_is_uuid (session_db 0 True 0 ?L) 100 (Some ''Bearer tok-j'')
             = Inr (?db, Some (alice, ''tok-j''))"
    by (simp add: authenticate_def is_token_revoked_def jwt_decode_def get_session_def
          session_usable_def session_owner_def session_save_def objects_get_def
          auth_defs example_defs Let_def)
  have h1: "?V ''tok-j'' = Some (example_payload sid1 (Some ''jti-1'') 9000)" by simp
  have h2: "''tok-j'' \<noteq> []" by simp
  have h3: "claim_jti (example_payload sid1 (Some ''jti-1'') 9000) = Some ''jti-1''"
    by (simp add: example_payload_def)
  have h4: "''jti-1'' \<noteq> []" by simp
  have h5: "claim_exp (example_payload sid1 (Some ''jti-1'') 9000) = Some 9000"
    by (simp add: example_payload_def)
  have h6: "(9000::int) \<noteq> 0" by simp
  have h7: "- 62135596800 \<le> (9000::int)" by simp
  have h8: "(9000::int) \<le> 253402300799" by simp
  have h9: "request_user (logout_request ''tok-j'') = Some alice"
    by (simp add: logout_request_def)
  have h10: "auth (logout_request ''tok-j'') = Some ''tok-j''"
    by (simp add: logout_request_def)
  have h11: "distinct (map jti (revoked_tokens ?db))" by (simp add: session_db_def)
  have h12: "\<forall>r \<in> set (revoked_tokens ?db). jti r = ''jti-1'' \<longrightarrow> 9000 \<le> token_expires_at r"
    by (simp add: session_db_def)
  from revoke_twice_one_entry[where verify = ?V and token = "''tok-j''" and j = "''jti-1''"
      and e = 9000 and req = "logout_request ''tok-j''" and db = ?db and ?t1.0 = 101
      and ?t2.0 = 102, OF h1 h2 h3 h4 h5 h6 h7 h8 h9 h10 h11 h12]
  obtain db1 db2 where
    "logout ?V ?db 101 (logout_request ''tok-j'') = Inr db1"
    "logout ?V db1 102 (logout_request ''tok-j'') = Inr db2"
    "length (filter (\<lambda>r. jti r = ''jti-1'') (revoked_tokens db1)) = 1"
    "revoked_tokens db2 = revoked_tokens db1"
    "\<forall>now. now < 9000 \<longrightarrow> is_token_revoked ?V db1 now ''tok-j'' = Inr True \<and>
                            is_token_revoked ?V db2 now ''tok-j'' = Inr True"
    by blast
  then have "\<exists>db1 db2.
     logout ?V ?db 101 (logout_request ''tok-j'') = Inr db1 \<and>
     logout ?V db1 102 (logout_request ''tok-j'') = Inr db2 \<and>
     length (filter (\<lambda>r. jti r = ''jti-1'') (revoked_tokens db1)) = 1 \<and>
     revoked_tokens db2 = revoked_tokens db1 \<and>
     is_token_revoked ?V db1 8999 ''tok-j'' = Inr True \<and>
     is_token_revoked ?V db2 8999 ''tok-j'' = Inr True"
    by (intro exI[of _ db1] exI[of _ db2]) simp
  with a show ?thesis by simp
qed

text \<open>
  C6, the claim as stated fails, at four tokens. Each request is one the user's active
  session authenticates (first line of each run); the second logout is a request that was
  authenticated before the first one finished.
  \<^item> The \<open>jti\<close> claim is the empty string: \<open>if jti and exp\<close> is false, both logouts insert
    nothing, and the check answers \<open>False\<close> at time 103, before \<open>exp = 9000\<close>.
  \<^item> The \<open>exp\<close> claim is 0 (such a token authenticates only while the clock is before the
    epoch): again nothing is inserted, and the check answers \<open>False\<close> at time -97.
  \<^item> The \<open>exp\<close> claim is beyond the year 9999: the conversion raises and the logout ends
    in that exception, with nothing recorded and the session still active.
  \<^item> The ledger already holds an entry for the \<open>jti\<close> that expired at 50:
    \<open>get_or_create\<close> keeps it, and the check answers \<open>False\<close> at 103, before \<open>exp = 9000\<close>.
\<close>

theorem revoke_twice_counterexamples:
  "authenticate (map_of [(''tok-a'', example_payload sid1 (Some []) 9000)]) example_is_uuid
     (session_db 0 True 0 []) 100 (Some ''Bearer tok-a'')
     = Inr (session_db 0 True 100 [], Some (alice, ''tok-a'')) \<and>
   logout (map_of [(''tok-a'', example_payload sid1 (Some []) 9000)])
     (session_db 0 True 100 []) 101 (logout_request ''tok-a'')
     = Inr (session_db 0 False 100 []) \<and>
   logout (map_of [(''tok-a'', example_payload sid1 (Some []) 9000)])
     (session_db 0 False 100 []) 102 (logout_request ''tok-a'')
     = Inr (session_db 0 False 100 []) \<and>
   is_token_revoked (map_of [(''tok-a'', example_payload sid1 (Some []) 9000)])
     (session_db 0 False 100 []) 103 ''tok-a'' = Inr False \<and>
   authenticate (map_of [(''tok-b'', example_payload sid1 (Some ''jti-1'') 0)]) example_is_uuid
     (session_db (- 1000) True (- 1000) []) (- 100) (Some ''Bearer tok-b'')
     = Inr (session_db (- 1000) True (- 100) [], Some (alice, ''tok-b'')) \<and>
   logout (map_of [(''tok-b'', example_payload sid1 (Some ''jti-1'') 0)])
     (session_db (- 1000) True (- 100) []) (- 99) (logout_request ''tok-b'')
     = Inr (session_db (- 1000) False (- 100) []) \<and>
   logout (map_of [(''tok-b'', example_payload sid1 (Some ''jti-1'') 0)])
     (session_db (- 1000) False (- 100) []) (- 98) (logout_request ''tok-b'')
     = Inr (session_db (- 1000) False (- 100) []) \<and>
   is_token_revoked (map_of [(''tok-b'', example_payload sid1 (Some ''jti-1'') 0)])
     (session_db (- 1000) False (- 100) []) (- 97) ''tok-b'' = Inr False \<and>
   authenticate (map_of [(''tok-c'', example_payload sid1 (Some ''jti-1'') 1000000000000000000)])
     example_is_uuid (session_db 0 True 0 []) 100 (Some ''Bearer tok-c'')
     = Inr (session_db 0 True 100 [], Some (alice, ''tok-c'')) \<and>
   logout (map_of [(''tok-c'', example_payload sid1 (Some ''jti-1'') 1000000000000000000)])
     (session_db 0 True 100 []) 101 (logout_request ''tok-c'')
     = Inl Uncaught_TimestampError \<and>
   authenticate (map_of [(''tok-d'', example_payload sid1 (Some ''jti-1'') 9000)]) example_is_uuid
     (session_db 0 True 0 [\<lparr>jti = ''jti-1'', revoked_at = 10, token_expires_at = 50\<rparr>])
     100 (Some ''Bearer tok-d'')
     = Inr (session_db 0 True 100 [\<lparr>jti = ''jti-1'', revoked_at = 10, token_expires_at = 50\<rparr>],
            Some (alice, ''tok-d'')) \<and>
   logout (map_of [(''tok-d'', example_payload sid1 (Some ''jti-1'') 9000)])
     (session_db 0 True 100 [\<lparr>jti = ''jti-1'', revoked_at = 10, token_expires_at = 50\<rparr>])
     101 (logout_request ''tok-d'')
     = Inr (session_db 0 False 100 [\<lparr>jti = ''jti-1'', revoked_at = 10, token_expires_at = 50\<rparr>]) \<and>
   logout (map_of [(''tok-d'', example_payload sid1 (Some ''jti-1'') 9000)])
     (session_db 0 False 100 [\<lparr>jti = ''jti-1'', revoked_at = 10, token_expires_at = 50\<rparr>])
     102 (logout_request ''tok-d'')
     = Inr (session_db 0 False 100 [\<lparr>jti = ''jti-1'', revoked_at = 10, token_expires_at = 50\<rparr>]) \<and>
   is_token_revoked (map_of [(''tok-d'', example_payload sid1 (Some ''jti-1'') 9000)])
     (session_db 0 False 100 [\<lparr>jti = ''jti-1'', revoked_at = 10, token_expires_at = 50\<rparr>])
     103 ''tok-d'' = Inr False"
  by (simp add: authenticate_def is_token_revoked_def jwt_decode_def get_session_def
        session_usable_def session_owner_def session_save_def objects_get_def
        logout_def blacklist_token_def fromtimestamp_def revoked_token_get_or_create_def
        auth_defs example_defs Let_def)

text \<open>
  C2. The claim: a minted token carries a fresh \<open>jti\<close>, and after logout the same token is
  refused as revoked. \<open>create_jwt_token\<close> writes no \<open>jti\<close>, so the blacklist step of
  \<open>logout\<close> finds nothing to record. Login at time 1000, a request at 2000, logout at 2001:
  the ledger stays empty, and the request at 2002 is refused because the session is
  inactive, not because the token is revoked.
\<close>

theorem logout_leaves_minted_token_unrevoked:
  "login (=) (\<lambda>p. ''tok-1'') example_db sid1 1000 ''alice@example.com'' ''pw-alice''
     = (example_db\<lparr>sessions := [example_session sid1 7 1000]\<rparr>,
        \<lparr>login_status = 200, login_token = Some ''tok-1'', login_errors = None\<rparr>) \<and>
   claim_jti (create_jwt_payload (example_session sid1 7 1000) alice 1000) = None \<and>
   authenticate (map_of [(''tok-1'', create_jwt_payload (example_session sid1 7 1000) alice 1000)]) example_is_uuid
     (example_db\<lparr>sessions := [example_session sid1 7 1000]\<rparr>) 2000 (Some ''Bearer tok-1'')
     = Inr (example_db\<lparr>sessions := [(example_session sid1 7 1000)\<lparr>last_activity_at := 2000\<rparr>]\<rparr>,
            Some (alice, ''tok-1'')) \<and>
   logout (map_of [(''tok-1'', create_jwt_payload (example_session sid1 7 1000) alice 1000)])
     (example_db\<lparr>sessions := [(example_session sid1 7 1000)\<lparr>last_activity_at := 2000\<rparr>]\<rparr>)
     2001 (logout_request ''tok-1'')
     = Inr (example_db\<lparr>sessions := [(example_session sid1 7 1000)
              \<lparr>last_activity_at := 2000, session_is_active := False\<rparr>]\<rparr>) \<and>
   revoked_tokens (example_db\<lparr>sessions := [(example_session sid1 7 1000)
              \<lparr>last_activity_at := 2000, session_is_active := False\<rparr>]\<rparr>) = [] \<and>
   authenticate (map_of [(''tok-1'', create_jwt_payload (example_session sid1 7 1000) alice 1000)]) example_is_uuid
     (example_db\<lparr>sessions := [(example_session sid1 7 1000)
              \<lparr>last_activity_at := 2000, session_is_active := False\<rparr>]\<rparr>)
     2002 (Some ''Bearer tok-1'')
     = Inl (AuthenticationFailed ''Session not found or inactive'')"
  by (simp add: login_def validate_def objects_get_def create_session_def create_jwt_token_def
        create_jwt_payload_def authenticate_def is_token_revoked_def jwt_decode_def
        get_session_def session_usable_def session_owner_def session_save_def
        logout_def blacklist_token_def auth_defs example_defs Let_def)

section \<open>Login\<close>

text \<open>
  C4, as amended. With unique emails, credential verification fails with a validation
  error in all three cases, and the login view answers 401 with that error. An unknown
  email and a wrong password for an active account give the same message; an inactive
  account gives a message of its own, whatever the password.
\<close>

theorem login_failure_messages:
  assumes "distinct (map email (users db))"
  shows "((\<forall>u \<in> set (users db). email u \<noteq> mail) \<longrightarrow>
            validate cp db mail pw = Inl (ValidationError Wrong_email_or_password)) \<and>
         (\<forall>u \<in> set (users db). email u = mail \<and> \<not> is_active u \<longrightarrow>
            validate cp db mail pw = Inl (ValidationError Account_deactivated)) \<and>
         (\<forall>u \<in> set (users db). email u = mail \<and> is_active u \<and> \<not> cp pw (password u) \<longrightarrow>
            validate cp db mail pw = Inl (ValidationError Wrong_email_or_password)) \<and>
         (\<forall>msg. validate cp db mail pw = Inl (ValidationError msg) \<longrightarrow>
            login cp sign db new_id now mail pw =
              (db, \<lparr>login_status = 401, login_token = None, login_errors = Some msg\<rparr>))"
proof -
  have a: "(\<forall>u \<in> set (users db). email u \<noteq> mail) \<longrightarrow>
            validate cp db mail pw = Inl (ValidationError Wrong_email_or_password)"
    by (auto simp: validate_def objects_get_none)
  have r: "objects_get (\<lambda>u. email u = mail) (users db) = Row u"
    if "u \<in> set (users db)" "email u = mail" for u
    using objects_get_key_Row[OF assms that] .
  have b: "\<forall>u \<in> set (users db). email u = mail \<and> \<not> is_active u \<longrightarrow>
            validate cp db mail pw = Inl (ValidationError Account_deactivated)"
    using r by (auto simp: validate_def)
  have c: "\<forall>u \<in> set (users db). email u = mail \<and> is_active u \<and> \<not> cp pw (password u) \<longrightarrow>
            validate cp db mail pw = Inl (ValidationError Wrong_email_or_password)"
    using r by (auto simp: validate_def)
  have d: "\<forall>msg. validate cp db mail pw = Inl (ValidationError msg) \<longrightarrow>
            login cp sign db new_id now mail pw =
              (db, \<lparr>login_status = 401, login_token = None, login_errors = Some msg\<rparr>)"
    by (simp add: login_def)
  from a b c d show ?thesis by blast
qed

theorem login_failure_messages_witness:
  "validate (=) example_db ''carol@example.com'' ''pw-carol''
     = Inl (ValidationError Wrong_email_or_password) \<and>
   validate (=) example_db ''bob@example.com'' ''pw-bob''
     = Inl (ValidationError Account_deactivated) \<and>
   validate (=) example_db ''alice@example.com'' ''guess''
     = Inl (ValidationError Wrong_email_or_password)"
proof -
  have h: "distinct (map email (users example_db))" by (simp add: example_defs)
  have a: "\<forall>u \<in> set (users example_db). email u \<noteq> ''carol@example.com''"
    by (simp add: example_defs)
  have b: "bob \<in> set (users example_db) \<and> email bob = ''bob@example.com'' \<and> \<not> is_active bob"
    by (simp add: example_defs)
  have c: "alice \<in> set (users example_db) \<and> email alice = ''alice@example.com'' \<and>
           is_active alice \<and> \<not> (''guess'' = password alice)"
    by (simp add: example_defs)
  from login_failure_messages[OF h, of "''carol@example.com''" "(=)" "''pw-carol''"] a
  have 1: "validate (=) example_db ''carol@example.com'' ''pw-carol''
             = Inl (ValidationError Wrong_email_or_password)" by blast
  from login_failure_messages[OF h, of "''bob@example.com''" "(=)" "''pw-bob''"] b
  have 2: "validate (=) example_db ''bob@example.com'' ''pw-bob''
             = Inl (ValidationError Account_deactivated)" by blast
  from login_failure_messages[OF h, of "''alice@example.com''" "(=)" "''guess''"] c
  have 3: "validate (=) example_db ''alice@example.com'' ''guess''
             = Inl (ValidationError Wrong_email_or_password)" by blast
  from 1 2 3 show ?thesis by simp
qed

text \<open>
  C4, the claim as stated fails: the deactivated account of the sample database and an
  unknown email get different messages, so the caller can tell the two failures apart.
\<close>

theorem inactive_account_message_differs:
  "validate (=) example_db ''bob@example.com'' ''pw-bob''
     = Inl (ValidationError Account_deactivated) \<and>
   validate (=) example_db ''carol@example.com'' ''pw-bob''
     = Inl (ValidationError Wrong_email_or_password) \<and>
   validate (=) example_db ''bob@example.com'' ''pw-bob''
     \<noteq> validate (=) example_db ''carol@example.com'' ''pw-bob''"
  by (simp add: validate_def objects_get_def example_defs)

section \<open>The products endpoint: anonymous requests\<close>

text \<open>
  C7. A request to the products endpoint for which authentication resolves nobody (no
  credentials, or an authentication failure) is answered 401, and
  \<open>HasPermission.has_permission\<close>, the only place that looks rules up, does not run.
\<close>

theorem anonymous_products_request_401:
  assumes "authenticate verify is_uuid db now hdr = Inr (db, None) \<or>
           (\<exists>msg. authenticate verify is_uuid db now hdr = Inl (AuthenticationFailed msg))"
  shows "status (fst (snd (products_request verify is_uuid db now hdr m))) = 401 \<and>
         HasPermission \<notin> set (snd (snd (products_request verify is_uuid db now hdr m)))"
  using assms
  by (auto simp: products_request_def custom_is_authenticated_def status_of_error_def)

theorem anonymous_products_request_401_witness:
  "status (fst (snd (products_request (map_of []) example_is_uuid example_db 10 None ''GET''))) = 401 \<and>
   HasPermission \<notin> set (snd (snd (products_request (map_of []) example_is_uuid example_db 10 None ''GET'')))"
proof -
  have h: "authenticate (map_of []) example_is_uuid example_db 10 None = Inr (example_db, None) \<or>
           (\<exists>msg. authenticate (map_of []) example_is_uuid example_db 10 None = Inl (AuthenticationFailed msg))"
    by (simp add: authenticate_def)
  show ?thesis using anonymous_products_request_401[OF h] .
qed

end
